theory Spec2Isabelle
  imports Main
begin

section \<open>Values, errors and time\<close>

text \<open>
  The program is one Flask module, \<^verbatim>\<open>app.py\<close>: two SQLAlchemy models (\<^verbatim>\<open>User\<close>,
  \<^verbatim>\<open>Book\<close>), two authentication callbacks, the decorator \<^verbatim>\<open>require_admin\<close> and the
  route handlers. Every exception the Python can raise is a value of \<open>error\<close>;
  \<^verbatim>\<open>abort(n)\<close> is \<open>Abort n\<close>.
\<close>

datatype error = TypeError | AttributeError | KeyError | IntegrityError | Abort nat

text \<open>
  JSON values of a request body (numbers are integers), and what a column or a response
  dictionary holds; \<open>JTime\<close> is a datetime.
\<close>

datatype val = JNull | JStr string | JInt int | JBool bool | JTime int
  | JList "val list" | JDict "(string \<times> val) list"

text \<open>
  A \<^verbatim>\<open>datetime\<close> is a count of microseconds (its resolution);
  \<^verbatim>\<open>timedelta(seconds=n)\<close> is \<open>timedelta n\<close>.
\<close>

type_synonym datetime = int

definition timedelta :: "int \<Rightarrow> int" where
  "timedelta seconds = seconds * 1000000"

section \<open>The models\<close>

text \<open>
  \<^verbatim>\<open>class User(db.Model)\<close>: the nine columns, all nullable but the primary key, which
  is \<open>None\<close> on an object that was never flushed. \<open>icon\<close> is no column: it is the plain
  instance attribute that \<^verbatim>\<open>from_dict\<close> sets, \<open>None\<close> while it is unset.
\<close>

record user =
  user_id :: "nat option"
  first_name :: val
  last_name :: val
  email :: val
  password :: val
  created_on :: "datetime option"
  is_admin :: "bool option"
  token :: "string option"
  token_exp :: "datetime option"
  icon :: "val option"

text \<open>\<^verbatim>\<open>class Book(db.Model)\<close>; the column \<^verbatim>\<open>image\<close> is the field \<open>image_col\<close>.\<close>

record book =
  book_id :: "nat option"
  title :: val
  author :: val
  pages :: val
  summary :: val
  image_col :: val

text \<open>The two tables, in row order: the rows that a query reads.\<close>

record store =
  users :: "user list"
  books :: "book list"

text \<open>\<^verbatim>\<open>User()\<close> and \<^verbatim>\<open>Book()\<close>: every column unset.\<close>

definition User_new :: user where
  "User_new = \<lparr>user_id = None, first_name = JNull, last_name = JNull, email = JNull,
     password = JNull, created_on = None, is_admin = None, token = None, token_exp = None,
     icon = None\<rparr>"

definition Book_new :: book where
  "Book_new = \<lparr>book_id = None, title = JNull, author = JNull, pages = JNull,
     summary = JNull, image_col = JNull\<rparr>"

subsection \<open>Queries\<close>

text \<open>\<^verbatim>\<open>User.query.filter_by(token=token).first()\<close>\<close>

definition first_by_token :: "store \<Rightarrow> string \<Rightarrow> user option" where
  "first_by_token s tok = find (\<lambda>u. token u = Some tok) (users s)"

text \<open>\<^verbatim>\<open>User.query.filter_by(email=email).first()\<close>\<close>

definition first_by_email :: "store \<Rightarrow> string \<Rightarrow> user option" where
  "first_by_email s e = find (\<lambda>u. email u = JStr e) (users s)"

text \<open>\<^verbatim>\<open>User.query.get(id)\<close> and \<^verbatim>\<open>Book.query.get(id)\<close>\<close>

definition User_query_get :: "store \<Rightarrow> nat \<Rightarrow> user option" where
  "User_query_get s i = find (\<lambda>u. user_id u = Some i) (users s)"

definition Book_query_get :: "store \<Rightarrow> nat \<Rightarrow> book option" where
  "Book_query_get s i = find (\<lambda>b. book_id b = Some i) (books s)"

subsection \<open>Saving\<close>

text \<open>
  \<^verbatim>\<open>db.session.add(self); db.session.commit()\<close>. The flush writes the object to the row
  with its primary key, or appends a row under the next key when it has none; the columns
  \<^verbatim>\<open>email\<close> and \<^verbatim>\<open>token\<close> are declared \<^verbatim>\<open>unique=True\<close>, so a second row with the same
  non-null value makes the commit raise.
\<close>

definition next_user_id :: "user list \<Rightarrow> nat" where
  "next_user_id rows = Suc (fold max (map (\<lambda>r. case user_id r of None \<Rightarrow> 0 | Some i \<Rightarrow> i) rows) 0)"

definition violates_unique :: "user \<Rightarrow> user list \<Rightarrow> bool" where
  "violates_unique self rows =
     list_ex (\<lambda>r. user_id r \<noteq> user_id self \<and>
                  ((email r \<noteq> JNull \<and> email r = email self) \<or>
                   (token r \<noteq> None \<and> token r = token self))) rows"

definition flush_user :: "user \<Rightarrow> store \<Rightarrow> store" where
  "flush_user self s =
     (if list_ex (\<lambda>r. user_id r = user_id self) (users s)
      then s\<lparr>users := map (\<lambda>r. if user_id r = user_id self then self else r) (users s)\<rparr>
      else s\<lparr>users := users s @ [self]\<rparr>)"

definition User_save :: "user \<Rightarrow> store \<Rightarrow> error + user \<times> store" where
  "User_save self s =
     (let self' = (case user_id self of
                     None \<Rightarrow> self\<lparr>user_id := Some (next_user_id (users s))\<rparr>
                   | Some _ \<Rightarrow> self)
      in if violates_unique self' (users s) then Inl IntegrityError
         else Inr (self', flush_user self' s))"

section \<open>Token methods\<close>

text \<open>Python truthiness of a nullable string column: \<^verbatim>\<open>None\<close> and \<^verbatim>\<open>''\<close> are false.\<close>

definition truthy_str :: "string option \<Rightarrow> bool" where
  "truthy_str t = (case t of None \<Rightarrow> False | Some x \<Rightarrow> x \<noteq> [])"

text \<open>
  \<^verbatim>\<open>User.get_token(self, exp=86400)\<close>. The clock reading \<^verbatim>\<open>dt.utcnow()\<close> and the result
  of \<^verbatim>\<open>secrets.token_urlsafe(32)\<close> are arguments. The result is what the call returns or
  raises, the object after the call and the store after the call. Comparing \<^verbatim>\<open>None\<close>
  with a datetime raises \<^verbatim>\<open>TypeError\<close>.
\<close>

definition get_token ::
  "user \<Rightarrow> int \<Rightarrow> datetime \<Rightarrow> string \<Rightarrow> store \<Rightarrow> (error + string) \<times> user \<times> store" where
  "get_token self exp current_time fresh s =
     (let issue =
        (let self' = self\<lparr>token := Some fresh,
                           token_exp := Some (current_time + timedelta exp)\<rparr>
         in case User_save self' s of
              Inl e \<Rightarrow> (Inl e, self', s)
            | Inr (self'', s') \<Rightarrow> (Inr fresh, self'', s'))
      in if truthy_str (token self)
         then (case token_exp self of
                 None \<Rightarrow> (Inl TypeError, self, s)
               | Some e \<Rightarrow>
                   if e > current_time + timedelta 60
                   then (Inr (the (token self)), self, s)
                   else issue)
         else issue)"


text \<open>\<^verbatim>\<open>User.check_token(token)\<close>: \<open>Inr None\<close> is the returned \<^verbatim>\<open>None\<close>.\<close>

definition check_token :: "store \<Rightarrow> string \<Rightarrow> datetime \<Rightarrow> error + user option" where
  "check_token s tok now =
     (case first_by_token s tok of
        None \<Rightarrow> Inr None
      | Some u \<Rightarrow>
          (case token_exp u of
             None \<Rightarrow> Inl TypeError
           | Some e \<Rightarrow> if e < now then Inr None else Inr (Some u)))"

text \<open>
  The schema's constraint on the token column (\<^verbatim>\<open>unique=True\<close>): no two rows share a
  non-null token.
\<close>

definition unique_tokens :: "store \<Rightarrow> bool" where
  "unique_tokens s = distinct (filter (\<lambda>t. t \<noteq> None) (map token (users s)))"

section \<open>Authentication callbacks\<close>

text \<open>The request context \<^verbatim>\<open>g\<close>: the identity bound to the current request.\<close>

record ctx =
  current_user :: "user option"

text \<open>
  \<^verbatim>\<open>verify_token(token)\<close>, the callback of the bearer-token scheme; the token is \<open>None\<close>
  when the request carries none.
\<close>

definition verify_token ::
  "store \<Rightarrow> ctx \<Rightarrow> string option \<Rightarrow> datetime \<Rightarrow> (error + user option) \<times> ctx" where
  "verify_token s g tok now =
     (case (if truthy_str tok then check_token s (the tok) now else Inr None) of
        Inl e \<Rightarrow> (Inl e, g)
      | Inr user \<Rightarrow> (Inr user, g\<lparr>current_user := user\<rparr>))"

text \<open>
  \<^verbatim>\<open>verify_password(email, password)\<close>, the callback of the basic scheme. It ends in
  \<^verbatim>\<open>user.check_hashed_password(password)\<close>, a method that \<^verbatim>\<open>class User\<close> does not
  define. \<open>verify_password_with\<close> is the function's body over any such method, given as
  the argument \<open>chk\<close>; \<open>verify_password\<close> is the function with the class as it stands,
  where the call raises \<^verbatim>\<open>AttributeError\<close>.
\<close>

definition verify_password_with ::
  "(user \<Rightarrow> string \<Rightarrow> error + bool) \<Rightarrow> store \<Rightarrow> ctx \<Rightarrow> string \<Rightarrow> string \<Rightarrow> (error + bool) \<times> ctx" where
  "verify_password_with chk s g email_arg password_arg =
     (case first_by_email s email_arg of
        None \<Rightarrow> (Inr False, g)
      | Some u \<Rightarrow> (chk u password_arg, g\<lparr>current_user := Some u\<rparr>))"

definition User_check_hashed_password :: "user \<Rightarrow> string \<Rightarrow> error + bool" where
  "User_check_hashed_password self password_arg = Inl AttributeError"

definition verify_password ::
  "store \<Rightarrow> ctx \<Rightarrow> string \<Rightarrow> string \<Rightarrow> (error + bool) \<times> ctx" where
  "verify_password = verify_password_with User_check_hashed_password"

section \<open>The admin guard\<close>

text \<open>
  A handler reads the context, its arguments (the path's id, the request's JSON body) and
  the store; it returns or raises, and leaves a store. \<^verbatim>\<open>require_admin(f)\<close> is the
  wrapper \<^verbatim>\<open>check_admin\<close>: \<^verbatim>\<open>not g.current_user.is_admin\<close> is true for \<^verbatim>\<open>False\<close> and
  for a null column; with no identity bound, reading \<^verbatim>\<open>.is_admin\<close> of \<^verbatim>\<open>None\<close> raises.
\<close>

definition require_admin ::
  "(ctx \<Rightarrow> 'a \<Rightarrow> store \<Rightarrow> (error + 'r) \<times> store) \<Rightarrow> ctx \<Rightarrow> 'a \<Rightarrow> store \<Rightarrow> (error + 'r) \<times> store" where
  "require_admin f g args s =
     (case current_user g of
        None \<Rightarrow> (Inl AttributeError, s)
      | Some u \<Rightarrow>
          if \<not> (is_admin u = Some True) then (Inl (Abort 403), s)
          else f g args s)"

section \<open>Dictionaries and responses\<close>

type_synonym dict = "(string \<times> val) list"

text \<open>\<^verbatim>\<open>d[k] = v\<close> on a Python dictionary: an existing key keeps its place.\<close>

fun dict_set :: "string \<Rightarrow> val \<Rightarrow> dict \<Rightarrow> dict" where
  "dict_set k v [] = [(k, v)]"
| "dict_set k v ((k', v') # d) = (if k = k' then (k, v) # d else (k', v') # dict_set k v d)"

text \<open>
  The body of a request as \<^verbatim>\<open>request.get_json()\<close> meets it: not of a JSON content
  type, of that type and not parseable, or parsed to a value. The first aborts with 415,
  the second with 400.
\<close>

datatype payload = NotJson | Malformed | Parsed val

definition get_json :: "payload \<Rightarrow> error + val" where
  "get_json p = (case p of
      NotJson \<Rightarrow> Inl (Abort 415)
    | Malformed \<Rightarrow> Inl (Abort 400)
    | Parsed v \<Rightarrow> Inr v)"

text \<open>\<^verbatim>\<open>k in s\<close> for two strings: \<open>k\<close> occurs in \<open>s\<close>.\<close>

fun starts_with :: "string \<Rightarrow> string \<Rightarrow> bool" where
  "starts_with [] s = True"
| "starts_with (c # k) [] = False"
| "starts_with (c # k) (c' # s) = (c = c' \<and> starts_with k s)"

fun str_contains :: "string \<Rightarrow> string \<Rightarrow> bool" where
  "str_contains k [] = (k = [])"
| "str_contains k (c # s) = (starts_with k (c # s) \<or> str_contains k s)"

text \<open>
  \<^verbatim>\<open>k in v\<close> for a string \<open>k\<close>: a key of a dictionary, an element of a list, a
  substring of a string; any other value is not iterable.
\<close>

definition py_in :: "string \<Rightarrow> val \<Rightarrow> error + bool" where
  "py_in k v = (case v of
      JDict d \<Rightarrow> Inr (map_of d k \<noteq> None)
    | JList xs \<Rightarrow> Inr (JStr k \<in> set xs)
    | JStr x \<Rightarrow> Inr (str_contains k x)
    | _ \<Rightarrow> Inl TypeError)"

text \<open>
  \<^verbatim>\<open>v[k]\<close> for a string \<open>k\<close>: \<^verbatim>\<open>KeyError\<close> on a dictionary without the key,
  \<^verbatim>\<open>TypeError\<close> on anything that is not a dictionary.
\<close>

definition py_getitem :: "val \<Rightarrow> string \<Rightarrow> error + val" where
  "py_getitem v k = (case v of
      JDict d \<Rightarrow> (case map_of d k of None \<Rightarrow> Inl KeyError | Some x \<Rightarrow> Inr x)
    | _ \<Rightarrow> Inl TypeError)"

text \<open>
  \<^verbatim>\<open>all(key in d for key in keys)\<close>: the keys are tried in order, up to the first that
  is absent or the first test that raises.
\<close>

fun has_keys :: "val \<Rightarrow> string list \<Rightarrow> error + bool" where
  "has_keys d [] = Inr True"
| "has_keys d (k # ks) =
     (case py_in k d of
        Inl e \<Rightarrow> Inl e
      | Inr present \<Rightarrow> if present then has_keys d ks else Inr False)"

text \<open>
  \<^verbatim>\<open>make_response(body, status)\<close>: the body is a dictionary or an f-string, kept as the
  list of its parts.
\<close>

datatype body = Json dict | Formatted "val list"

datatype response = Response body nat

definition val_of_time :: "datetime option \<Rightarrow> val" where
  "val_of_time t = (case t of None \<Rightarrow> JNull | Some x \<Rightarrow> JTime x)"

definition val_of_bool :: "bool option \<Rightarrow> val" where
  "val_of_bool b = (case b of None \<Rightarrow> JNull | Some x \<Rightarrow> JBool x)"

definition val_of_str :: "string option \<Rightarrow> val" where
  "val_of_str t = (case t of None \<Rightarrow> JNull | Some x \<Rightarrow> JStr x)"

definition val_of_key :: "nat option \<Rightarrow> val" where
  "val_of_key i = (case i of None \<Rightarrow> JNull | Some n \<Rightarrow> JInt (int n))"

section \<open>User methods\<close>

text \<open>
  \<^verbatim>\<open>self.id\<close> on a \<^verbatim>\<open>User\<close>: the class declares the column \<^verbatim>\<open>user_id\<close> and no
  attribute \<^verbatim>\<open>id\<close>, so the read raises. \<^verbatim>\<open>self.hash_password\<close> is not defined either.
\<close>

definition User_id :: "user \<Rightarrow> error + val" where
  "User_id self = Inl AttributeError"

definition User_hash_password :: "user \<Rightarrow> error + (val \<Rightarrow> val)" where
  "User_hash_password self = Inl AttributeError"

text \<open>
  \<^verbatim>\<open>User.from_dict(self, data)\<close>: the subscripts raise \<^verbatim>\<open>KeyError\<close> on an absent key
  (\<^verbatim>\<open>TypeError\<close> when the body is no dictionary), in the order of the assignments; \<^verbatim>\<open>self.hash_password\<close> is looked up before
  \<^verbatim>\<open>data['password']\<close> is read. The attributes assigned before a raise are not kept:
  no handler catches the exception, and nothing commits them.
\<close>

definition User_from_dict :: "user \<Rightarrow> val \<Rightarrow> error + user" where
  "User_from_dict self data =
     (case py_getitem data ''first_name'' of Inl e \<Rightarrow> Inl e | Inr fn \<Rightarrow>
      case py_getitem data ''last_name'' of Inl e \<Rightarrow> Inl e | Inr ln \<Rightarrow>
      case py_getitem data ''email'' of Inl e \<Rightarrow> Inl e | Inr em \<Rightarrow>
      case User_hash_password self of Inl e \<Rightarrow> Inl e | Inr h \<Rightarrow>
      case py_getitem data ''password'' of Inl e \<Rightarrow> Inl e | Inr pw \<Rightarrow>
      case py_getitem data ''icon'' of Inl e \<Rightarrow> Inl e | Inr ic \<Rightarrow>
        Inr (self\<lparr>first_name := fn, last_name := ln, email := em, password := h pw,
                  icon := Some ic\<rparr>))"

text \<open>\<^verbatim>\<open>User.to_dict(self)\<close>: the values are read in the order of the keys.\<close>

definition User_to_dict :: "user \<Rightarrow> error + dict" where
  "User_to_dict self =
     (case User_id self of Inl e \<Rightarrow> Inl e | Inr i \<Rightarrow>
      case icon self of None \<Rightarrow> Inl AttributeError | Some ic \<Rightarrow>
        Inr [(''id'', i), (''first_name'', first_name self), (''last_name'', last_name self),
             (''email'', email self), (''created_on'', val_of_time (created_on self)),
             (''icon'', ic), (''is_admin'', val_of_bool (is_admin self)),
             (''token'', val_of_str (token self))])"

section \<open>Book methods\<close>

text \<open>
  \<^verbatim>\<open>class Book\<close> defines \<^verbatim>\<open>edit\<close>, \<^verbatim>\<open>save\<close>, \<^verbatim>\<open>delete\<close> and \<^verbatim>\<open>to_dict\<close>. It has no
  \<^verbatim>\<open>from_dict\<close> and, its key being \<^verbatim>\<open>book_id\<close>, no attribute \<^verbatim>\<open>id\<close>: both reads raise.
\<close>

definition Book_from_dict :: "book \<Rightarrow> error + (val \<Rightarrow> book)" where
  "Book_from_dict self = Inl AttributeError"

definition Book_id :: "book \<Rightarrow> error + val" where
  "Book_id self = Inl AttributeError"

definition next_book_id :: "book list \<Rightarrow> nat" where
  "next_book_id rows = Suc (fold max (map (\<lambda>r. case book_id r of None \<Rightarrow> 0 | Some i \<Rightarrow> i) rows) 0)"

text \<open>\<^verbatim>\<open>Book.save(self)\<close>; no column of the table is unique.\<close>

definition Book_save :: "book \<Rightarrow> store \<Rightarrow> book \<times> store" where
  "Book_save self s =
     (let self' = (case book_id self of
                     None \<Rightarrow> self\<lparr>book_id := Some (next_book_id (books s))\<rparr>
                   | Some _ \<Rightarrow> self)
      in (self',
          if list_ex (\<lambda>r. book_id r = book_id self') (books s)
          then s\<lparr>books := map (\<lambda>r. if book_id r = book_id self' then self' else r) (books s)\<rparr>
          else s\<lparr>books := books s @ [self']\<rparr>))"

text \<open>\<^verbatim>\<open>Book.to_dict(self)\<close>; the fourth key is written \<^verbatim>\<open>'pages '\<close>, with the space.\<close>

definition Book_to_dict :: "book \<Rightarrow> dict" where
  "Book_to_dict self =
     [(''book_id'', val_of_key (book_id self)), (''title'', title self),
      (''author'', author self), (''pages '', pages self), (''summary'', summary self),
      (''image'', image_col self)]"

section \<open>Route handlers\<close>

text \<open>
  Each handler is the decorated function's body; \<open>Inr (Some r)\<close> is a returned response,
  \<open>Inr None\<close> a return without a value. A handler that reads the request's body takes
  it as a \<open>payload\<close> and starts, as the source does, with \<^verbatim>\<open>request.get_json()\<close>.
\<close>

type_synonym 'a handler = "ctx \<Rightarrow> 'a \<Rightarrow> store \<Rightarrow> (error + response option) \<times> store"

text \<open>
  \<^verbatim>\<open>get_login()\<close>, behind \<^verbatim>\<open>basic_auth.login_required\<close>: the arguments are the clock
  and the random string that \<^verbatim>\<open>get_token\<close> may use.
\<close>

definition get_login :: "(datetime \<times> string) handler" where
  "get_login g args s =
     (case current_user g of
        None \<Rightarrow> (Inl AttributeError, s)
      | Some u \<Rightarrow>
          (case get_token u 86400 (fst args) (snd args) s of
             (Inl e, u', s') \<Rightarrow> (Inl e, s')
           | (Inr tok, u', s') \<Rightarrow>
               (case User_to_dict u' of
                  Inl e \<Rightarrow> (Inl e, s')
                | Inr d \<Rightarrow>
                    (Inr (Some (Response (Json (fold (\<lambda>(k, v). dict_set k v) d
                                                  [(''token'', JStr tok)])) 200)), s'))))"

text \<open>\<^verbatim>\<open>register_user(id)\<close>\<close>

definition register_user :: "(nat \<times> payload) handler" where
  "register_user g args s =
     (case get_json (snd args) of
        Inl e \<Rightarrow> (Inl e, s)
      | Inr new_user_dict \<Rightarrow>
     (case has_keys new_user_dict
              [''first_name'', ''last_name'', ''email'', ''password'', ''created_on'', ''is_admin''] of
        Inl e \<Rightarrow> (Inl e, s)
      | Inr all_present \<Rightarrow>
      if \<not> all_present
      then (Inl (Abort 404), s)
      else (case User_from_dict User_new new_user_dict of
              Inl e \<Rightarrow> (Inl e, s)
            | Inr new_user \<Rightarrow>
                (case User_save new_user s of
                   Inl e \<Rightarrow> (Inl e, s)
                 | Inr (new_user', s') \<Rightarrow>
                     (case User_id new_user' of
                        Inl e \<Rightarrow> (Inl e, s')
                      | Inr i \<Rightarrow>
                          (Inr (Some (Response (Formatted
                             [JStr ''User '', first_name new_user', JStr '' '',
                              last_name new_user', JStr '' has been created with id: '', i])
                             200)), s'))))))"

text \<open>\<^verbatim>\<open>put_user(id)\<close>\<close>

definition put_user :: "(nat \<times> payload) handler" where
  "put_user g args s =
     (case get_json (snd args) of
        Inl e \<Rightarrow> (Inl e, s)
      | Inr user_dict \<Rightarrow>
     (case User_query_get s (fst args) of
        None \<Rightarrow> (Inl (Abort 404), s)
      | Some u \<Rightarrow>
          (case User_from_dict u user_dict of
             Inl e \<Rightarrow> (Inl e, s)
           | Inr u' \<Rightarrow>
               (case User_save u' s of
                  Inl e \<Rightarrow> (Inl e, s)
                | Inr (u'', s') \<Rightarrow>
                    (case User_id u'' of
                       Inl e \<Rightarrow> (Inl e, s')
                     | Inr i \<Rightarrow>
                         (Inr (Some (Response (Formatted
                            [JStr ''User '', i, JStr '' has been udpated'']) 200)), s'))))))"

text \<open>\<^verbatim>\<open>get_book_by_id(id)\<close>\<close>

definition get_book_by_id :: "nat handler" where
  "get_book_by_id g args s =
     (case Book_query_get s args of
        None \<Rightarrow> (Inl (Abort 404), s)
      | Some b \<Rightarrow> (Inr (Some (Response (Json (Book_to_dict b)) 200)), s))"

text \<open>
  \<^verbatim>\<open>post_book()\<close>: \<^verbatim>\<open>book.from_dict()\<close> is called with no argument; were the method
  there, a call without the dictionary would raise \<^verbatim>\<open>TypeError\<close>.
\<close>

definition post_book :: "payload handler" where
  "post_book g args s =
     (case get_json args of
        Inl e \<Rightarrow> (Inl e, s)
      | Inr book_dict \<Rightarrow>
     (case has_keys book_dict [''title'', ''author'', ''pages'', ''summary'', ''image''] of
        Inl e \<Rightarrow> (Inl e, s)
      | Inr all_present \<Rightarrow>
      if \<not> all_present
      then (Inl (Abort 404), s)
      else (case Book_from_dict Book_new of
              Inl e \<Rightarrow> (Inl e, s)
            | Inr f \<Rightarrow> (Inl TypeError, s))))"

text \<open>
  \<^verbatim>\<open>put_book(id)\<close>: the body is read first, then the book is looked up. The last
  statement builds a response and drops it, so the function would return \<^verbatim>\<open>None\<close>.
\<close>

definition put_book :: "(nat \<times> payload) handler" where
  "put_book g args s =
     (case get_json (snd args) of
        Inl e \<Rightarrow> (Inl e, s)
      | Inr book_dict \<Rightarrow>
     (case Book_query_get s (fst args) of
        None \<Rightarrow> (Inl (Abort 404), s)
      | Some b \<Rightarrow>
          (case Book_from_dict b of
             Inl e \<Rightarrow> (Inl e, s)
           | Inr f \<Rightarrow>
               (case Book_save (f book_dict) s of
                  (b', s') \<Rightarrow>
                    (case Book_id b' of
                       Inl e \<Rightarrow> (Inl e, s')
                     | Inr i \<Rightarrow> (Inr None, s'))))))"

section \<open>Example data\<close>

text \<open>
  A store with an administrator who holds a token that expires 1000 seconds after the
  epoch, a plain user who never logged in, and one book.
\<close>

definition ex_alice :: user where
  "ex_alice = \<lparr>user_id = Some 1, first_name = JStr ''A'', last_name = JStr ''B'',
     email = JStr ''a@b.com'', password = JStr ''hash-of-pw'', created_on = Some 0,
     is_admin = Some True, token = Some ''tok-alice'', token_exp = Some (timedelta 1000),
     icon = None\<rparr>"

definition ex_bob :: user where
  "ex_bob = \<lparr>user_id = Some 2, first_name = JStr ''Bob'', last_name = JStr ''C'',
     email = JStr ''bob@b.com'', password = JStr ''hash-of-bob'', created_on = Some 0,
     is_admin = Some False, token = None, token_exp = None, icon = None\<rparr>"

definition ex_book :: book where
  "ex_book = \<lparr>book_id = Some 1, title = JStr ''T0'', author = JStr ''X0'', pages = JInt 5,
     summary = JStr ''S0'', image_col = JStr ''img0.png''\<rparr>"

definition ex_store :: store where
  "ex_store = \<lparr>users = [ex_alice, ex_bob], books = [ex_book]\<rparr>"


text \<open>The plain user after a first login at the epoch, and the store with that row.\<close>

definition ex_bob_issued :: user where
  "ex_bob_issued = ex_bob\<lparr>token := Some ''fresh-1'', token_exp := Some (timedelta 86400)\<rparr>"

definition ex_store_issued :: store where
  "ex_store_issued = \<lparr>users = [ex_alice, ex_bob_issued], books = [ex_book]\<rparr>"

text \<open>A row that holds a token and no expiry, and a store with it.\<close>

definition ex_carol :: user where
  "ex_carol = \<lparr>user_id = Some 3, first_name = JStr ''Carol'', last_name = JStr ''D'',
     email = JStr ''carol@b.com'', password = JStr ''hash-of-carol'', created_on = Some 0,
     is_admin = Some False, token = Some ''tok-carol'', token_exp = None, icon = None\<rparr>"

definition ex_store_null_exp :: store where
  "ex_store_null_exp = \<lparr>users = [ex_carol], books = []\<rparr>"

text \<open>
  Request bodies: the five fields of a book, and a user's fields without the email. The
  context of a request made by the administrator.
\<close>

definition ex_book_body :: dict where
  "ex_book_body = [(''title'', JStr ''T''), (''author'', JStr ''X''), (''pages'', JInt 10),
     (''summary'', JStr ''S''), (''image'', JStr ''img.png'')]"

definition ex_user_body_no_email :: dict where
  "ex_user_body_no_email = [(''first_name'', JStr ''Bob''), (''last_name'', JStr ''C''),
     (''password'', JStr ''pw''), (''icon'', JStr ''i.png'')]"

definition ex_admin_ctx :: ctx where
  "ex_admin_ctx = \<lparr>current_user = Some ex_alice\<rparr>"

text \<open>
  A stand-in for the hash comparison that the class lacks: the stored hash of a password
  is the password behind a fixed prefix.
\<close>

definition ex_check :: "user \<Rightarrow> string \<Rightarrow> error + bool" where
  "ex_check self password_arg = Inr (password self = JStr (''hash-of-'' @ password_arg))"

lemmas ex_defs = ex_store_def ex_alice_def ex_bob_def ex_book_def ex_bob_issued_def
  ex_store_issued_def ex_carol_def ex_store_null_exp_def ex_book_body_def
  ex_user_body_no_email_def ex_admin_ctx_def

section \<open>Lemmas on the queries\<close>

lemma find_None_iff_no_row:
  "find P xs = None \<longleftrightarrow> (\<forall>x \<in> set xs. \<not> P x)"
  by (induction xs) auto

lemma find_unique_row:
  assumes "u \<in> set xs" and "P u" and "\<And>v. v \<in> set xs \<Longrightarrow> P v \<Longrightarrow> v = u"
  shows "find P xs = Some u"
  using assms
proof (induction xs)
  case Nil
  then show ?case by simp
next
  case (Cons x xs)
  show ?case
  proof (cases "P x")
    case True
    have "x \<in> set (x # xs)" by simp
    from Cons.prems(3) [OF this True] have "x = u" .
    with True show ?thesis by simp
  next
    case False
    with Cons.prems(1,2) have uin: "u \<in> set xs" by auto
    have rest: "v = u" if "v \<in> set xs" and "P v" for v
    proof -
      from that(1) have "v \<in> set (x # xs)" by simp
      from Cons.prems(3) [OF this that(2)] show ?thesis .
    qed
    from Cons.IH [OF uin Cons.prems(2) rest] have "find P xs = Some u" .
    with False show ?thesis by simp
  qed
qed

lemma distinct_filter_map_same:
  "distinct (filter P (map f xs)) \<Longrightarrow> u \<in> set xs \<Longrightarrow> v \<in> set xs \<Longrightarrow> f u = f v \<Longrightarrow> P (f u) \<Longrightarrow> v = u"
proof (induction xs)
  case Nil
  then show ?case by simp
next
  case (Cons x xs)
  have mem: "f u \<in> set (filter P (map f xs))" if "w \<in> set xs" and "f w = f u" for w
  proof -
    from that(1) have "f w \<in> set (map f xs)" by simp
    with that(2) Cons.prems(5) show ?thesis by simp
  qed
  show ?case
  proof (cases "P (f x)")
    case True
    with Cons.prems(1) have nx: "f x \<notin> set (filter P (map f xs))"
      and d: "distinct (filter P (map f xs))" by simp_all
    show ?thesis
    proof (cases "u = x")
      case ux: True
      show ?thesis
      proof (cases "v = x")
        case True
        with ux show ?thesis by simp
      next
        case False
        with Cons.prems(3) have "v \<in> set xs" by simp
        from mem [OF this] Cons.prems(4) have "f u \<in> set (filter P (map f xs))" by simp
        with nx ux show ?thesis by simp
      qed
    next
      case ux: False
      with Cons.prems(2) have uin: "u \<in> set xs" by simp
      show ?thesis
      proof (cases "v = x")
        case True
        from mem [OF uin] have "f u \<in> set (filter P (map f xs))" by simp
        with nx True Cons.prems(4) show ?thesis by simp
      next
        case False
        with Cons.prems(3) have "v \<in> set xs" by simp
        from Cons.IH [OF d uin this Cons.prems(4,5)] show ?thesis .
      qed
    qed
  next
    case False
    with Cons.prems(1) have d: "distinct (filter P (map f xs))" by simp
    from False Cons.prems(5) have ux: "u \<noteq> x" by auto
    from False Cons.prems(4,5) have vx: "v \<noteq> x" by auto
    from ux Cons.prems(2) have uin: "u \<in> set xs" by simp
    from vx Cons.prems(3) have vin: "v \<in> set xs" by simp
    from Cons.IH [OF d uin vin Cons.prems(4,5)] show ?thesis .
  qed
qed

lemma first_by_token_holder:
  assumes "unique_tokens s" and "u \<in> set (users s)" and "token u = Some t"
  shows "first_by_token s t = Some u"
  unfolding first_by_token_def
proof (rule find_unique_row)
  show "u \<in> set (users s)" by fact
  show "token u = Some t" by fact
  fix v assume vin: "v \<in> set (users s)" and vt: "token v = Some t"
  from assms(1) have d: "distinct (filter (\<lambda>t. t \<noteq> None) (map token (users s)))"
    unfolding unique_tokens_def .
  from assms(3) vt have eq: "token u = token v" by simp
  from assms(3) have nn: "token u \<noteq> None" by simp
  from distinct_filter_map_same [of "\<lambda>t. t \<noteq> None" token "users s" u v, OF d assms(2) vin eq nn]
  show "v = u" .
qed

section \<open>Resolving a token\<close>

text \<open>
  C1, as stated, fails at the boundary: the claim has \<^verbatim>\<open>check_token\<close> return
  \<^verbatim>\<open>None\<close> whenever \<open>token_exp\<close> is not strictly greater than the current time, but the
  test in the code is \<^verbatim>\<open>user.token_exp < dt.utcnow()\<close>, so at the very instant of expiry
  the holder is still returned.
\<close>

theorem check_token_at_expiry_counterexample:
  "first_by_token ex_store ''tok-alice'' = Some ex_alice \<and>
   token_exp ex_alice = Some (timedelta 1000) \<and>
   \<not> timedelta 1000 > timedelta 1000 \<and>
   check_token ex_store ''tok-alice'' (timedelta 1000) = Inr (Some ex_alice)"
  by (simp add: check_token_def first_by_token_def ex_defs)

lemma check_token_no_row:
  assumes "\<forall>u \<in> set (users s). token u \<noteq> Some tok"
  shows "check_token s tok now = Inr None"
proof -
  from assms have "first_by_token s tok = None"
    unfolding first_by_token_def by (simp add: find_None_iff_no_row)
  then show ?thesis by (simp add: check_token_def)
qed

text \<open>
  C1, amended: \<^verbatim>\<open>check_token\<close> returns \<^verbatim>\<open>None\<close> when no row holds the token; and when
  a row holds it (the only one, the column being unique) with expiry \<open>e\<close>, it returns
  \<^verbatim>\<open>None\<close> exactly when \<open>e\<close> is strictly before the current time, so always once the
  current time has passed the expiry, and it returns the holder otherwise.
\<close>

theorem check_token_not_found:
  "((\<forall>u \<in> set (users s). token u \<noteq> Some tok) \<longrightarrow> check_token s tok now = Inr None) \<and>
   (unique_tokens s \<and> u \<in> set (users s) \<and> token u = Some tok \<and> token_exp u = Some e \<longrightarrow>
      check_token s tok now = (if e < now then Inr None else Inr (Some u)))"
proof (intro conjI impI)
  assume "\<forall>u \<in> set (users s). token u \<noteq> Some tok"
  then show "check_token s tok now = Inr None" by (rule check_token_no_row)
next
  assume h: "unique_tokens s \<and> u \<in> set (users s) \<and> token u = Some tok \<and> token_exp u = Some e"
  then have "first_by_token s tok = Some u"
    using first_by_token_holder [of s u tok] by simp
  with h show "check_token s tok now = (if e < now then Inr None else Inr (Some u))"
    by (simp add: check_token_def)
qed

theorem check_token_not_found_witness:
  "unique_tokens ex_store \<and> ex_alice \<in> set (users ex_store) \<and>
   token ex_alice = Some ''tok-alice'' \<and> token_exp ex_alice = Some (timedelta 1000) \<and>
   check_token ex_store ''tok-none'' (timedelta 5) = Inr None \<and>
   check_token ex_store ''tok-alice'' (timedelta 1001) = Inr None \<and>
   check_token ex_store ''tok-alice'' (timedelta 999) = Inr (Some ex_alice)"
proof -
  have h: "unique_tokens ex_store \<and> ex_alice \<in> set (users ex_store) \<and>
      token ex_alice = Some ''tok-alice'' \<and> token_exp ex_alice = Some (timedelta 1000)"
    by (simp add: unique_tokens_def ex_defs)
  have n: "\<forall>u \<in> set (users ex_store). token u \<noteq> Some ''tok-none''"
    by (simp add: ex_defs)
  from check_token_not_found [of ex_store "''tok-none''" "timedelta 5"] n
  have a: "check_token ex_store ''tok-none'' (timedelta 5) = Inr None" by blast
  from check_token_not_found [of ex_store "''tok-alice''" "timedelta 1001" ex_alice "timedelta 1000"] h
  have b: "check_token ex_store ''tok-alice'' (timedelta 1001) = Inr None"
    by (simp add: timedelta_def)
  from check_token_not_found [of ex_store "''tok-alice''" "timedelta 999" ex_alice "timedelta 1000"] h
  have c: "check_token ex_store ''tok-alice'' (timedelta 999) = Inr (Some ex_alice)"
    by (simp add: timedelta_def)
  from h a b c show ?thesis by blast
qed

section \<open>The admin guard\<close>

text \<open>
  C2: with an identity bound to the request whose \<open>is_admin\<close> is not true (false, or a
  null column), \<^verbatim>\<open>require_admin(f)\<close> aborts with 403 whatever the handler \<open>f\<close> and the
  request's arguments and body are, and the store is the one before the call: \<open>f\<close> has
  not run. When \<open>is_admin\<close> is true the result is that of \<open>f\<close> on the same context,
  arguments and store.
\<close>

theorem require_admin_guard:
  "current_user g = Some u \<Longrightarrow>
   (is_admin u \<noteq> Some True \<longrightarrow> require_admin f g args s = (Inl (Abort 403), s)) \<and>
   (is_admin u = Some True \<longrightarrow> require_admin f g args s = f g args s)"
  by (simp add: require_admin_def)

theorem require_admin_guard_witness:
  "current_user \<lparr>current_user = Some ex_bob\<rparr> = Some ex_bob \<and>
   is_admin ex_bob \<noteq> Some True \<and>
   require_admin post_book \<lparr>current_user = Some ex_bob\<rparr>
       (Parsed (JDict [(''title'', JStr ''T'')])) ex_store =
     (Inl (Abort 403), ex_store) \<and>
   current_user \<lparr>current_user = Some ex_alice\<rparr> = Some ex_alice \<and>
   is_admin ex_alice = Some True \<and>
   require_admin get_book_by_id \<lparr>current_user = Some ex_alice\<rparr> 1 ex_store =
     get_book_by_id \<lparr>current_user = Some ex_alice\<rparr> 1 ex_store"
proof -
  have b: "current_user \<lparr>current_user = Some ex_bob\<rparr> = Some ex_bob" by simp
  have nb: "is_admin ex_bob \<noteq> Some True" by (simp add: ex_bob_def)
  have a: "current_user \<lparr>current_user = Some ex_alice\<rparr> = Some ex_alice" by simp
  have ya: "is_admin ex_alice = Some True" by (simp add: ex_alice_def)
  from require_admin_guard [OF b, of post_book "Parsed (JDict [(''title'', JStr ''T'')])" ex_store] nb
  have r1: "require_admin post_book \<lparr>current_user = Some ex_bob\<rparr>
       (Parsed (JDict [(''title'', JStr ''T'')])) ex_store =
     (Inl (Abort 403), ex_store)" by blast
  from require_admin_guard [OF a, of get_book_by_id 1 ex_store] ya
  have r2: "require_admin get_book_by_id \<lparr>current_user = Some ex_alice\<rparr> 1 ex_store =
     get_book_by_id \<lparr>current_user = Some ex_alice\<rparr> 1 ex_store" by blast
  from b nb a ya r1 r2 show ?thesis by blast
qed

section \<open>Password verification\<close>

text \<open>
  C3: \<^verbatim>\<open>verify_password\<close> returns \<^verbatim>\<open>False\<close> when no row has the email, and leaves the
  context alone; when the lookup yields a row and the hash comparison of that row with the
  password does not return \<^verbatim>\<open>True\<close>, verification does not return \<^verbatim>\<open>True\<close>, whatever
  comparison method \<open>chk\<close> the class is given; and with the class as it stands (no such
  method) it never returns \<^verbatim>\<open>True\<close> at all.
\<close>

theorem verify_password_fails_closed:
  "((\<forall>r \<in> set (users s). email r \<noteq> JStr e) \<longrightarrow>
      verify_password_with chk s g e p = (Inr False, g)) \<and>
   (first_by_email s e = Some u \<and> chk u p \<noteq> Inr True \<longrightarrow>
      fst (verify_password_with chk s g e p) \<noteq> Inr True) \<and>
   fst (verify_password s g e p) \<noteq> Inr True"
proof (intro conjI impI)
  assume "\<forall>r \<in> set (users s). email r \<noteq> JStr e"
  then have "first_by_email s e = None"
    unfolding first_by_email_def by (simp add: find_None_iff_no_row)
  then show "verify_password_with chk s g e p = (Inr False, g)"
    by (simp add: verify_password_with_def)
next
  assume "first_by_email s e = Some u \<and> chk u p \<noteq> Inr True"
  then show "fst (verify_password_with chk s g e p) \<noteq> Inr True"
    by (simp add: verify_password_with_def)
next
  show "fst (verify_password s g e p) \<noteq> Inr True"
    by (simp add: verify_password_def verify_password_with_def User_check_hashed_password_def
        split: option.split)
qed

theorem verify_password_fails_closed_witness:
  "verify_password_with ex_check ex_store \<lparr>current_user = None\<rparr> ''nobody@b.com'' ''pw'' =
     (Inr False, \<lparr>current_user = None\<rparr>) \<and>
   first_by_email ex_store ''a@b.com'' = Some ex_alice \<and>
   ex_check ex_alice ''wrong'' \<noteq> Inr True \<and>
   fst (verify_password_with ex_check ex_store \<lparr>current_user = None\<rparr> ''a@b.com'' ''wrong'') \<noteq> Inr True \<and>
   fst (verify_password_with ex_check ex_store \<lparr>current_user = None\<rparr> ''a@b.com'' ''pw'') = Inr True"
proof -
  have n: "\<forall>r \<in> set (users ex_store). email r \<noteq> JStr ''nobody@b.com''"
    by (simp add: ex_defs)
  have f: "first_by_email ex_store ''a@b.com'' = Some ex_alice"
    by (simp add: first_by_email_def ex_defs)
  have w: "ex_check ex_alice ''wrong'' \<noteq> Inr True"
    by (simp add: ex_check_def ex_alice_def)
  from verify_password_fails_closed [of ex_store "''nobody@b.com''" ex_check "\<lparr>current_user = None\<rparr>" "''pw''"] n
  have r1: "verify_password_with ex_check ex_store \<lparr>current_user = None\<rparr> ''nobody@b.com'' ''pw'' =
     (Inr False, \<lparr>current_user = None\<rparr>)" by blast
  from verify_password_fails_closed [of ex_store "''a@b.com''" ex_check "\<lparr>current_user = None\<rparr>" "''wrong''" ex_alice] f w
  have r2: "fst (verify_password_with ex_check ex_store \<lparr>current_user = None\<rparr> ''a@b.com'' ''wrong'') \<noteq> Inr True"
    by blast
  have r3: "fst (verify_password_with ex_check ex_store \<lparr>current_user = None\<rparr> ''a@b.com'' ''pw'') = Inr True"
    using f by (simp add: verify_password_with_def ex_check_def ex_alice_def)
  from r1 f w r2 r3 show ?thesis by blast
qed

section \<open>Revoking a token\<close>


section \<open>Issuing a token\<close>


lemma User_save_token:
  assumes "User_save x s = Inr (x', s')"
  shows "token x' = token x \<and> token_exp x' = token_exp x"
  using assms by (auto simp: User_save_def Let_def split: if_splits option.splits)

lemma get_token_reuse_branch:
  assumes "token u = Some t" and "t \<noteq> []" and "token_exp u = Some e"
    and "now + timedelta 60 < e"
  shows "get_token u L now fresh s = (Inr t, u, s)"
  using assms by (simp add: get_token_def truthy_str_def)

lemma get_token_holds_result:
  assumes "get_token u L now fresh s = (Inr tok, u', s')" and "fresh \<noteq> []"
  shows "token u' = Some tok \<and> tok \<noteq> []"
proof (cases "truthy_str (token u) \<and> (\<exists>e. token_exp u = Some e \<and> now + timedelta 60 < e)")
  case True
  then obtain t e where "token u = Some t" "t \<noteq> []" "token_exp u = Some e" "now + timedelta 60 < e"
    by (auto simp: truthy_str_def split: option.splits)
  with assms get_token_reuse_branch [of u t e now L fresh s] show ?thesis by simp
next
  case False
  let ?x = "u\<lparr>token := Some fresh, token_exp := Some (now + timedelta L)\<rparr>"
  from False assms(1) have "(case User_save ?x s of Inl e \<Rightarrow> (Inl e, ?x, s)
      | Inr (x', s') \<Rightarrow> (Inr fresh, x', s')) = (Inr tok, u', s')"
    by (auto simp: get_token_def Let_def split: option.splits if_splits)
  then have sv: "User_save ?x s = Inr (u', s')" and tf: "tok = fresh"
    by (auto split: sum.splits prod.splits)
  from User_save_token [OF sv] tf assms(2) show ?thesis by simp
qed

lemma get_token_issued_expiry:
  assumes "get_token u L now fresh s = (Inr tok, u', s')" and "token u \<noteq> Some tok"
  shows "token_exp u' = Some (now + timedelta L)"
proof (cases "truthy_str (token u) \<and> (\<exists>e. token_exp u = Some e \<and> now + timedelta 60 < e)")
  case True
  then obtain t e where "token u = Some t" "t \<noteq> []" "token_exp u = Some e" "now + timedelta 60 < e"
    by (auto simp: truthy_str_def split: option.splits)
  with assms get_token_reuse_branch [of u t e now L fresh s] show ?thesis by simp
next
  case False
  let ?x = "u\<lparr>token := Some fresh, token_exp := Some (now + timedelta L)\<rparr>"
  from False assms(1) have "(case User_save ?x s of Inl e \<Rightarrow> (Inl e, ?x, s)
      | Inr (x', s') \<Rightarrow> (Inr fresh, x', s')) = (Inr tok, u', s')"
    by (auto simp: get_token_def Let_def split: option.splits if_splits)
  then have sv: "User_save ?x s = Inr (u', s')"
    by (auto split: sum.splits prod.splits)
  from User_save_token [OF sv] show ?thesis by simp
qed

text \<open>
  C4, as stated, fails in its second half: two calls less than \<open>L - 60\<close> seconds apart
  need not return the same token. The administrator's token expires at second 1000; a
  call at second 900 reuses it, and a call 50 seconds later, with less than 60 seconds of
  lifetime left, issues a new one.
\<close>

theorem get_token_twice_counterexample:
  "get_token ex_alice 86400 (timedelta 900) ''fresh-1'' ex_store =
     (Inr ''tok-alice'', ex_alice, ex_store) \<and>
   timedelta 900 \<le> timedelta 950 \<and>
   timedelta 950 - timedelta 900 < timedelta 86400 - timedelta 60 \<and>
   fst (get_token ex_alice 86400 (timedelta 950) ''fresh-2'' ex_store) = Inr ''fresh-2''"
  by (simp add: get_token_def truthy_str_def User_save_def violates_unique_def Let_def
      timedelta_def ex_defs)

text \<open>
  C4, amended: a user who holds a non-empty token whose expiry is more than 60 seconds
  after the clock reading gets that token back, and neither the object nor the store
  changes; a second call returns the token of a first, successful call whenever that
  token's expiry is more than 60 seconds after the second clock reading; and this is so
  in particular when the first call issued a new token for \<open>L\<close> seconds and the second
  comes less than \<open>L - 60\<close> seconds after it. The string that
  \<^verbatim>\<open>secrets.token_urlsafe(32)\<close> returns is never empty.
\<close>

theorem get_token_reuse:
  "(token u = Some t \<and> t \<noteq> [] \<and> token_exp u = Some e \<and> now + timedelta 60 < e \<longrightarrow>
      get_token u L now fresh s = (Inr t, u, s)) \<and>
   (get_token u L now fresh s = (Inr tok, u', s') \<and> fresh \<noteq> [] \<and>
    token_exp u' = Some e' \<and> now' + timedelta 60 < e' \<longrightarrow>
      get_token u' L' now' fresh' s' = (Inr tok, u', s')) \<and>
   (get_token u L now fresh s = (Inr tok, u', s') \<and> fresh \<noteq> [] \<and> token u \<noteq> Some tok \<and>
    now' - now < timedelta L - timedelta 60 \<longrightarrow>
      get_token u' L' now' fresh' s' = (Inr tok, u', s'))"
proof (intro conjI impI)
  assume "token u = Some t \<and> t \<noteq> [] \<and> token_exp u = Some e \<and> now + timedelta 60 < e"
  then show "get_token u L now fresh s = (Inr t, u, s)"
    using get_token_reuse_branch by blast
next
  assume h: "get_token u L now fresh s = (Inr tok, u', s') \<and> fresh \<noteq> [] \<and>
    token_exp u' = Some e' \<and> now' + timedelta 60 < e'"
  then have "token u' = Some tok \<and> tok \<noteq> []"
    using get_token_holds_result by blast
  with h show "get_token u' L' now' fresh' s' = (Inr tok, u', s')"
    using get_token_reuse_branch by blast
next
  assume h: "get_token u L now fresh s = (Inr tok, u', s') \<and> fresh \<noteq> [] \<and>
    token u \<noteq> Some tok \<and> now' - now < timedelta L - timedelta 60"
  then have tk: "token u' = Some tok \<and> tok \<noteq> []"
    using get_token_holds_result by blast
  from h have ex: "token_exp u' = Some (now + timedelta L)"
    using get_token_issued_expiry by blast
  from h have "now' + timedelta 60 < now + timedelta L" by linarith
  with tk ex show "get_token u' L' now' fresh' s' = (Inr tok, u', s')"
    using get_token_reuse_branch by blast
qed

theorem get_token_reuse_witness:
  "token ex_alice = Some ''tok-alice'' \<and> ''tok-alice'' \<noteq> [] \<and>
   token_exp ex_alice = Some (timedelta 1000) \<and> timedelta 900 + timedelta 60 < timedelta 1000 \<and>
   get_token ex_alice 86400 (timedelta 900) ''fresh-1'' ex_store =
     (Inr ''tok-alice'', ex_alice, ex_store) \<and>
   get_token ex_bob 86400 0 ''fresh-1'' ex_store = (Inr ''fresh-1'', ex_bob_issued, ex_store_issued) \<and>
   ''fresh-1'' \<noteq> [] \<and> token ex_bob \<noteq> Some ''fresh-1'' \<and>
   token_exp ex_bob_issued = Some (timedelta 86400) \<and>
   timedelta 86339 + timedelta 60 < timedelta 86400 \<and>
   timedelta 86339 - 0 < timedelta 86400 - timedelta 60 \<and>
   get_token ex_bob_issued 86400 (timedelta 86339) ''fresh-2'' ex_store_issued =
     (Inr ''fresh-1'', ex_bob_issued, ex_store_issued)"
proof -
  have a: "token ex_alice = Some ''tok-alice'' \<and> ''tok-alice'' \<noteq> [] \<and>
      token_exp ex_alice = Some (timedelta 1000) \<and> timedelta 900 + timedelta 60 < timedelta 1000"
    by (simp add: ex_alice_def timedelta_def)
  have first_call: "get_token ex_bob 86400 0 ''fresh-1'' ex_store =
      (Inr ''fresh-1'', ex_bob_issued, ex_store_issued)"
    by (simp add: get_token_def truthy_str_def User_save_def violates_unique_def flush_user_def
        Let_def ex_bob_issued_def ex_store_issued_def ex_defs)
  have b: "''fresh-1'' \<noteq> [] \<and> token ex_bob \<noteq> Some ''fresh-1'' \<and>
      token_exp ex_bob_issued = Some (timedelta 86400) \<and>
      timedelta 86339 + timedelta 60 < timedelta 86400 \<and>
      timedelta 86339 - 0 < timedelta 86400 - timedelta 60"
    by (simp add: ex_bob_issued_def ex_bob_def timedelta_def)
  from get_token_reuse [of ex_alice "''tok-alice''" "timedelta 1000" "timedelta 900" 86400
      "''fresh-1''" ex_store] a
  have r1: "get_token ex_alice 86400 (timedelta 900) ''fresh-1'' ex_store =
      (Inr ''tok-alice'', ex_alice, ex_store)" by blast
  from get_token_reuse [of ex_bob _ _ 0 86400 "''fresh-1''" ex_store "''fresh-1''"
      ex_bob_issued ex_store_issued "timedelta 86400" "timedelta 86339" 86400 "''fresh-2''"]
    first_call b
  have r2: "get_token ex_bob_issued 86400 (timedelta 86339) ''fresh-2'' ex_store_issued =
      (Inr ''fresh-1'', ex_bob_issued, ex_store_issued)" by blast
  from a first_call b r1 r2 show ?thesis by blast
qed

section \<open>The expiry comparisons\<close>



section \<open>The handlers\<close>

text \<open>
  C6: the administrator posts a book with the five fields. \<^verbatim>\<open>post_book\<close> parses the
  body, passes the key check and then calls \<^verbatim>\<open>book.from_dict()\<close>, which \<^verbatim>\<open>class Book\<close> does not define: the
  handler raises, the store is the one before the request, and the id a new row would
  have taken is still not found.
\<close>

theorem post_book_creates_no_row:
  "is_admin ex_alice = Some True \<and>
   has_keys (JDict ex_book_body) [''title'', ''author'', ''pages'', ''summary'', ''image''] =
     Inr True \<and>
   require_admin post_book ex_admin_ctx (Parsed (JDict ex_book_body)) ex_store =
     (Inl AttributeError, ex_store) \<and>
   get_book_by_id ex_admin_ctx 2 ex_store = (Inl (Abort 404), ex_store)"
  by (simp add: require_admin_def post_book_def get_json_def py_in_def Book_from_dict_def
      get_book_by_id_def Book_query_get_def ex_defs)

text \<open>
  C7: the administrator puts an existing user with a body that has no \<^verbatim>\<open>email\<close>.
  \<^verbatim>\<open>put_user\<close> checks no key: the subscript in \<^verbatim>\<open>from_dict\<close> raises \<^verbatim>\<open>KeyError\<close>,
  where \<^verbatim>\<open>register_user\<close> aborts on the same body at its key check.
\<close>

theorem put_user_missing_email:
  "is_admin ex_alice = Some True \<and>
   User_query_get ex_store 2 = Some ex_bob \<and>
   map_of ex_user_body_no_email ''email'' = None \<and>
   require_admin put_user ex_admin_ctx (2, Parsed (JDict ex_user_body_no_email)) ex_store =
     (Inl KeyError, ex_store) \<and>
   require_admin register_user ex_admin_ctx (2, Parsed (JDict ex_user_body_no_email)) ex_store =
     (Inl (Abort 404), ex_store)"
  by (simp add: require_admin_def put_user_def register_user_def get_json_def py_in_def
      py_getitem_def User_from_dict_def User_query_get_def ex_defs)

lemma get_login_raises_always: "\<exists>e. fst (get_login g args s) = Inl e"
  by (auto simp: get_login_def User_to_dict_def User_id_def split: option.splits prod.splits sum.splits)

text \<open>
  C8: \<^verbatim>\<open>get_login\<close> never returns a response. \<^verbatim>\<open>User.to_dict\<close> reads \<^verbatim>\<open>self.id\<close>,
  which the class does not have, so the handler raises after \<^verbatim>\<open>get_token\<close>; and before
  the handler, \<^verbatim>\<open>verify_password\<close> raises on an existing user, the class having no
  \<^verbatim>\<open>check_hashed_password\<close>.
\<close>

theorem get_login_raises:
  "(\<exists>e. fst (get_login g args s) = Inl e) \<and>
   get_login ex_admin_ctx (timedelta 900, ''fresh-1'') ex_store = (Inl AttributeError, ex_store) \<and>
   fst (verify_password ex_store \<lparr>current_user = None\<rparr> ''a@b.com'' ''pw'') = Inl AttributeError"
proof (intro conjI)
  show "\<exists>e. fst (get_login g args s) = Inl e" by (rule get_login_raises_always)
  show "get_login ex_admin_ctx (timedelta 900, ''fresh-1'') ex_store = (Inl AttributeError, ex_store)"
    by (simp add: get_login_def get_token_def truthy_str_def User_to_dict_def User_id_def
        timedelta_def ex_defs)
  show "fst (verify_password ex_store \<lparr>current_user = None\<rparr> ''a@b.com'' ''pw'') = Inl AttributeError"
    by (simp add: verify_password_def verify_password_with_def User_check_hashed_password_def
        first_by_email_def ex_defs)
qed

text \<open>
  C10: \<^verbatim>\<open>put_book\<close> reads the body, looks the book up and, on an existing book, calls
  \<^verbatim>\<open>book.from_dict\<close>, which \<^verbatim>\<open>class Book\<close> does not define: it raises
  \<^verbatim>\<open>AttributeError\<close> before any update or save, and the store is the one before the
  request. So the administrator's edit of book 1 leaves the row as it was; the handler
  does not get as far as returning without a value.
\<close>

theorem put_book_existing_raises:
  "put_book g (i, p) s =
     (case get_json p of
        Inl e \<Rightarrow> (Inl e, s)
      | Inr d \<Rightarrow>
          (case Book_query_get s i of
             None \<Rightarrow> (Inl (Abort 404), s)
           | Some b \<Rightarrow> (Inl AttributeError, s))) \<and>
   is_admin ex_alice = Some True \<and>
   Book_query_get ex_store 1 = Some ex_book \<and>
   require_admin put_book ex_admin_ctx (1, Parsed (JDict ex_book_body)) ex_store =
     (Inl AttributeError, ex_store) \<and>
   Book_query_get
     (snd (require_admin put_book ex_admin_ctx (1, Parsed (JDict ex_book_body)) ex_store)) 1 =
     Some ex_book"
proof -
  have general: "put_book g (i, p) s =
     (case get_json p of
        Inl e \<Rightarrow> (Inl e, s)
      | Inr d \<Rightarrow>
          (case Book_query_get s i of
             None \<Rightarrow> (Inl (Abort 404), s)
           | Some b \<Rightarrow> (Inl AttributeError, s)))"
    by (simp add: put_book_def Book_from_dict_def split: sum.splits option.splits)
  have admin: "is_admin ex_alice = Some True" by (simp add: ex_alice_def)
  have found: "Book_query_get ex_store 1 = Some ex_book"
    by (simp add: Book_query_get_def ex_defs)
  have raised: "require_admin put_book ex_admin_ctx (1, Parsed (JDict ex_book_body)) ex_store =
     (Inl AttributeError, ex_store)"
    using found admin
    by (simp add: require_admin_def put_book_def get_json_def Book_from_dict_def
        ex_admin_ctx_def)
  from raised found
  have kept: "Book_query_get
     (snd (require_admin put_book ex_admin_ctx (1, Parsed (JDict ex_book_body)) ex_store)) 1 =
     Some ex_book"
    by simp
  from general admin found raised kept show ?thesis by blast
qed

end
